theory Spec2Isabelle
  imports Main "HOL-Library.Sublist" "HOL-Library.Char_ord" "HOL-Library.List_Lexorder"
    "HOL-Library.Multiset"
begin

section \<open>The repository state model and the outside world\<close>

text \<open>
  \<^verbatim>\<open>cola/cmds.py\<close> holds the command objects of git-cola. Every command reads and
  writes the main model (\<^verbatim>\<open>cola.model()\<close>) and talks to collaborators that live in other
  modules: the notifier, the command factory, git, the file system, the configuration.
  The model is a record; everything a command does to the outside is appended, in program
  order, to a trace of events; everything the outside answers is read from a record of
  external answers.
\<close>

datatype mode = mode_none | mode_worktree | mode_index | mode_amend | mode_untracked

record main_model =
  diff_text :: string
  filename :: "string option"
  mode :: mode
  head :: string
  commitmsg :: string
  directory :: string
  staged :: "string list"
  modified :: "string list"
  unmerged :: "string list"
  untracked :: "string list"

datatype py_error =
    UsageError string string
  | IOError
  | IndexError
  | KeyError
  | TypeError

text \<open>
  The values of a guitool option dictionary: \<^verbatim>\<open>None\<close>, a boolean flag or a string.
\<close>

datatype optval = ONone | OBool bool | OStr string

type_synonym opts = "string \<rightharpoonup> optval"

datatype event =
    Broadcast_log_cmd int string
  | Broadcast_amend bool
  | Prompt_information string string
  | Prompt_question string string
  | Prompt_critical string string
  | Prompt_run_config_action string
  | Prompt_run_command string "string list"
  | Run_command "string list"
  | Call_update_file_status
  | Call_update_status
  | Call_stage_paths "string list"
  | Call_unstage_paths "string list"
  | Call_unstage_all
  | Call_untrack_paths "string list"
  | Call_commit_with_msg string string bool
  | Git_rev_parse string
  | Git_am string
  | Git_diff_stat string

record world =
  model :: main_model
  environ :: "string \<rightharpoonup> string"
  events :: "event list"

text \<open>The four path lists that a status scan of the repository finds.\<close>

record scan =
  scan_staged :: "string list"
  scan_modified :: "string list"
  scan_unmerged :: "string list"
  scan_untracked :: "string list"

datatype pwd_result = Pwd_ImportError | Pwd_KeyError | Pwd_name string

text \<open>
  What the collaborators answer during one call of a constructor, of \<^verbatim>\<open>do()\<close> or of
  \<^verbatim>\<open>undo()\<close>. None of them is defined in \<^verbatim>\<open>cmds.py\<close>; each field is named after the
  call it answers.
\<close>

record ext =
  path_exists :: "string \<Rightarrow> bool"
  path_isfile :: "string \<Rightarrow> bool"
  slurp :: "string \<Rightarrow> py_error + string"
  git_path :: "string \<Rightarrow> string"
  prev_commitmsg :: "string option \<Rightarrow> string"
  status_scan :: scan
  config :: "string \<rightharpoonup> string"
  getpwuid :: pwd_result
  platform_node :: string
  tmp_filename :: "string \<Rightarrow> string"
  commit_result :: "int \<times> string"
  untrack_result :: "int \<times> string"
  rev_parse_result :: string
  am_result :: "nat \<Rightarrow> string \<Rightarrow> int \<times> string"
  diff_stat_result :: "nat \<Rightarrow> string \<Rightarrow> string"
  guitool_opts :: "string \<Rightarrow> opts"
  selection_filename :: "string option"
  translated_prompt :: "string \<Rightarrow> string"
  expandvars :: "(string \<rightharpoonup> string) \<Rightarrow> string \<Rightarrow> string"
  run_config_answers :: "(bool \<times> opts) list"
  question_answer :: bool
  run_command_result :: "int \<times> string \<times> string"

subsection \<open>The model's setters and operations\<close>

text \<open>
  Modelled from the spec: the setters of the main model (\<^verbatim>\<open>cola/models/main.py\<close> is not
  part of the sources). The spec's data model says that the state is "mutated exclusively
  through named setter calls issued by Commands"; each setter stores its argument in the
  field it is named after.
\<close>

definition set_diff_text :: "string \<Rightarrow> world \<Rightarrow> world" where
  "set_diff_text v w = w\<lparr>model := (model w)\<lparr>diff_text := v\<rparr>\<rparr>"

definition set_filename :: "string option \<Rightarrow> world \<Rightarrow> world" where
  "set_filename v w = w\<lparr>model := (model w)\<lparr>filename := v\<rparr>\<rparr>"

definition set_mode :: "mode \<Rightarrow> world \<Rightarrow> world" where
  "set_mode v w = w\<lparr>model := (model w)\<lparr>mode := v\<rparr>\<rparr>"

definition set_head :: "string \<Rightarrow> world \<Rightarrow> world" where
  "set_head v w = w\<lparr>model := (model w)\<lparr>head := v\<rparr>\<rparr>"

definition set_commitmsg :: "string \<Rightarrow> world \<Rightarrow> world" where
  "set_commitmsg v w = w\<lparr>model := (model w)\<lparr>commitmsg := v\<rparr>\<rparr>"

definition set_directory :: "string \<Rightarrow> world \<Rightarrow> world" where
  "set_directory v w = w\<lparr>model := (model w)\<lparr>directory := v\<rparr>\<rparr>"

definition emit :: "event \<Rightarrow> world \<Rightarrow> world" where
  "emit e w = w\<lparr>events := events w @ [e]\<rparr>"

text \<open>
  Modelled from the spec: the rescan and the path operations of the main model, which are
  not part of the sources. The spec's glossary defines a rescan as "a full recomputation of
  staged/unstaged/untracked/unmerged path lists from the underlying repository", and says
  that the path operations are backed by the VCS collaborator. Each is recorded in the
  trace and replaces the four path lists by what the scan finds.
\<close>

definition rescan :: "scan \<Rightarrow> world \<Rightarrow> world" where
  "rescan sc w = w\<lparr>model := (model w)\<lparr>staged := scan_staged sc, modified := scan_modified sc,
      unmerged := scan_unmerged sc, untracked := scan_untracked sc\<rparr>\<rparr>"

definition update_file_status :: "ext \<Rightarrow> world \<Rightarrow> world" where
  "update_file_status x w = rescan (status_scan x) (emit Call_update_file_status w)"

definition update_status :: "ext \<Rightarrow> world \<Rightarrow> world" where
  "update_status x w = rescan (status_scan x) (emit Call_update_status w)"

definition stage_paths :: "ext \<Rightarrow> string list \<Rightarrow> world \<Rightarrow> world" where
  "stage_paths x paths w = rescan (status_scan x) (emit (Call_stage_paths paths) w)"

definition unstage_paths :: "ext \<Rightarrow> string list \<Rightarrow> world \<Rightarrow> world" where
  "unstage_paths x paths w = rescan (status_scan x) (emit (Call_unstage_paths paths) w)"

definition unstage_all :: "ext \<Rightarrow> world \<Rightarrow> world" where
  "unstage_all x w = rescan (status_scan x) (emit Call_unstage_all w)"

definition untrack_paths :: "ext \<Rightarrow> string list \<Rightarrow> world \<Rightarrow> (int \<times> string) \<times> world" where
  "untrack_paths x paths w =
     (untrack_result x, rescan (status_scan x) (emit (Call_untrack_paths paths) w))"

text \<open>
  Modelled from the spec: \<^verbatim>\<open>_config.get(key, default)\<close> of the configuration reader
  (\<^verbatim>\<open>get(key, default) -> value\<close> in the spec's external interfaces).
\<close>

definition config_get :: "ext \<Rightarrow> string \<Rightarrow> string \<Rightarrow> string" where
  "config_get x key dflt = (case config x key of None \<Rightarrow> dflt | Some v \<Rightarrow> v)"

text \<open>
  Strings are byte strings here, so a text and its UTF-8 encoding are the same list of
  characters: \<^verbatim>\<open>core.encode\<close> and \<^verbatim>\<open>core.decode\<close> are the identity.
\<close>

definition core_encode :: "string \<Rightarrow> string" where
  "core_encode s = s"

definition core_decode :: "string \<Rightarrow> string" where
  "core_decode s = s"

section \<open>The command base class\<close>

record command =
  undoable :: bool
  old_diff_text :: string
  old_filename :: "string option"
  old_mode :: mode
  old_head :: string
  new_diff_text :: string
  new_filename :: "string option"
  new_head :: string
  new_mode :: mode

definition Command_init :: "main_model \<Rightarrow> command" where
  "Command_init m =
     \<lparr>undoable = False,
      old_diff_text = diff_text m, old_filename = filename m,
      old_mode = mode m, old_head = head m,
      new_diff_text = diff_text m, new_filename = filename m,
      new_head = head m, new_mode = mode m\<rparr>"

definition Command_do :: "'a command_scheme \<Rightarrow> world \<Rightarrow> world" where
  "Command_do self w =
     set_diff_text (new_diff_text self)
       (set_mode (new_mode self)
         (set_head (new_head self)
           (set_filename (new_filename self) w)))"

definition Command_undo :: "'a command_scheme \<Rightarrow> world \<Rightarrow> world" where
  "Command_undo self w =
     set_mode (old_mode self)
       (set_head (old_head self)
         (set_filename (old_filename self)
           (set_diff_text (old_diff_text self) w)))"

section \<open>The command objects\<close>

text \<open>
  One record per class, extending the base class with the attributes the constructor
  adds. A class that adds no attribute (\<^verbatim>\<open>SetDiffText\<close>, \<^verbatim>\<open>ResetMode\<close>,
  \<^verbatim>\<open>UnstageAll\<close>, \<^verbatim>\<open>UntrackedSummary\<close>, \<^verbatim>\<open>ShowUntracked\<close>) is a plain
  \<^typ>\<open>command\<close>.
\<close>

record amendmode = command +
  skip :: bool
  amending :: bool
  old_commitmsg :: string
  new_commitmsg :: string

record loadcommitmessage = command +
  path :: "string option"
  old_commitmsg :: string
  old_directory :: string

record loadpreviousmessage = command +
  sha1 :: string
  old_commitmsg :: string
  new_commitmsg :: string

record signoff = command +
  old_commitmsg :: string

record commit = command +
  amend :: bool
  msg :: string
  old_commitmsg :: string
  new_commitmsg :: string

record stage = command +
  paths :: "string list"

record unstage = command +
  paths :: "string list"

record untrack = command +
  paths :: "string list"

record applypatches = command +
  patches :: "string list"

record runconfigaction = command +
  name :: string

text \<open>
  The objects that the undo stack of the factory can hold, tagged with their class:
  \<^verbatim>\<open>type(cmdobj) is not AmendMode\<close> is a test on the tag.
\<close>

datatype cmdobj =
    AmendMode amendmode
  | LoadCommitMessage loadcommitmessage
  | LoadCommitTemplate loadcommitmessage
  | LoadPreviousMessage loadpreviousmessage
  | SetDiffText command
  | SignOff signoff
  | ResetMode command
  | Commit commit

section \<open>AmendMode\<close>

text \<open>
  The loop of \<^verbatim>\<open>AmendMode.__init__\<close> over \<^verbatim>\<open>xrange(undo_count)\<close>: the list
  argument holds the values of \<^verbatim>\<open>i\<close> still to come. \<^verbatim>\<open>continue\<close> goes on with the
  rest, \<^verbatim>\<open>break\<close> returns.
\<close>

fun undostack_search :: "cmdobj list \<Rightarrow> nat \<Rightarrow> nat list \<Rightarrow> amendmode \<Rightarrow> amendmode" where
  "undostack_search undostack undo_count [] self = self"
| "undostack_search undostack undo_count (i # rest) self =
     (let idx = undo_count - i - 1;
          cmdobj = undostack ! idx
      in case cmdobj of
           AmendMode c \<Rightarrow>
             if amending c
             then self\<lparr>amendmode.new_commitmsg := amendmode.old_commitmsg c\<rparr>
             else undostack_search undostack undo_count rest self
         | _ \<Rightarrow> undostack_search undostack undo_count rest self)"

definition AmendMode_init :: "ext \<Rightarrow> cmdobj list \<Rightarrow> main_model \<Rightarrow> bool \<Rightarrow> amendmode" where
  "AmendMode_init x undostack m amend' =
     (let self = command.extend (Command_init m)
                   (amendmode.fields False amend' (commitmsg m) []);
          self = self\<lparr>undoable := True\<rparr>
      in if amending self
         then self\<lparr>new_mode := mode_amend, new_head := ''HEAD^'',
                   amendmode.new_commitmsg := prev_commitmsg x None\<rparr>
         else
           let self = self\<lparr>new_mode := mode_none, new_head := ''HEAD'',
                           new_diff_text := [],
                           amendmode.new_commitmsg := commitmsg m\<rparr>
           in if undostack = [] then self
              else
                let undo_count = length undostack
                in undostack_search undostack undo_count [0..<undo_count] self)"

definition AmendMode_do :: "ext \<Rightarrow> amendmode \<Rightarrow> world \<Rightarrow> amendmode \<times> world" where
  "AmendMode_do x self w =
     (if amending self \<and> path_exists x (git_path x ''MERGE_HEAD'')
      then
        (self\<lparr>skip := True\<rparr>,
         emit (Prompt_information ''Oops! Unmerged''
                 ''You are in the middle of a merge.\<newline>You cannot amend while merging.'')
           (emit (Broadcast_amend False) w))
      else
        let self = self\<lparr>skip := False\<rparr>;
            w = emit (Broadcast_amend (amending self)) w;
            w = set_commitmsg (amendmode.new_commitmsg self) w;
            w = Command_do self w;
            w = update_file_status x w
        in (self, w))"

definition AmendMode_undo :: "ext \<Rightarrow> amendmode \<Rightarrow> world \<Rightarrow> amendmode \<times> world" where
  "AmendMode_undo x self w =
     (if skip self then (self, w)
      else
        let w = set_commitmsg (amendmode.old_commitmsg self) w;
            w = Command_undo self w;
            w = update_file_status x w
        in (self, w))"


section \<open>Helpers from the Python library\<close>

text \<open>\<^verbatim>\<open>os.path.dirname\<close> and \<^verbatim>\<open>os.path.basename\<close> of \<^verbatim>\<open>posixpath\<close>.\<close>

definition rfind_slash_plus1 :: "string \<Rightarrow> nat" where
  "rfind_slash_plus1 p = length p - length (takeWhile (\<lambda>c. c \<noteq> CHR ''/'') (rev p))"

definition dirname :: "string \<Rightarrow> string" where
  "dirname p =
     (let i = rfind_slash_plus1 p;
          hd' = take i p
      in if hd' \<noteq> [] \<and> hd' \<noteq> replicate (length hd') CHR ''/''
         then rev (dropWhile (\<lambda>c. c = CHR ''/'') (rev hd'))
         else hd')"

definition basename :: "string \<Rightarrow> string" where
  "basename p = drop (rfind_slash_plus1 p) p"

text \<open>\<^verbatim>\<open>sep.join(xs)\<close>.\<close>

fun join :: "string \<Rightarrow> string list \<Rightarrow> string" where
  "join sep [] = []"
| "join sep [s] = s"
| "join sep (s # t # ts) = s @ sep @ join sep (t # ts)"

text \<open>\<^verbatim>\<open>'%d' % n\<close> and \<^verbatim>\<open>'%s' % n\<close> for an integer.\<close>

definition digit_char :: "nat \<Rightarrow> char" where
  "digit_char d = ''0123456789'' ! d"

fun str_nat :: "nat \<Rightarrow> string" where
  "str_nat n = (if n < 10 then [digit_char n] else str_nat (n div 10) @ [digit_char (n mod 10)])"

declare str_nat.simps [simp del]

definition str_int :: "int \<Rightarrow> string" where
  "str_int i = (if i < 0 then CHR ''-'' # str_nat (nat (- i)) else str_nat (nat i))"

text \<open>\<^verbatim>\<open>s.rstrip()\<close>: trailing white space removed.\<close>

definition is_space :: "char \<Rightarrow> bool" where
  "is_space c = (c \<in> set [CHR '' '', CHR 0x09, CHR 0x0A, CHR 0x0B, CHR 0x0C, CHR 0x0D])"

definition rstrip :: "string \<Rightarrow> string" where
  "rstrip s = rev (dropWhile is_space (rev s))"

section \<open>The undoable commands\<close>

subsection \<open>LoadCommitMessage and LoadCommitTemplate\<close>

definition py_str_path :: "string option \<Rightarrow> string" where
  "py_str_path p = (case p of None \<Rightarrow> ''None'' | Some s \<Rightarrow> s)"

definition LoadCommitMessage_init :: "main_model \<Rightarrow> string option \<Rightarrow> loadcommitmessage" where
  "LoadCommitMessage_init m path' =
     (let self = command.extend (Command_init m)
                   (loadcommitmessage.fields path' (commitmsg m) (directory m))
      in self\<lparr>undoable := True\<rparr>)"

text \<open>
  \<^verbatim>\<open>do()\<close> can raise: the result is the exception, if any, with the world as it is when
  the call ends. \<^verbatim>\<open>utils.slurp\<close> reads the file after the directory has been set.
\<close>

definition LoadCommitMessage_do ::
  "ext \<Rightarrow> loadcommitmessage \<Rightarrow> world \<Rightarrow> py_error option \<times> world" where
  "LoadCommitMessage_do x self w =
     (let path' = path self
      in if path' = None \<or> path' = Some [] \<or> \<not> path_isfile x (the path')
         then (Some (UsageError ''Error: cannot find commit template''
                       (py_str_path path' @ '': No such file or directory.'')), w)
         else
           let w = set_directory (dirname (the path')) w
           in case slurp x (the path') of
                Inl e \<Rightarrow> (Some e, w)
              | Inr content \<Rightarrow> (None, set_commitmsg content w))"

definition LoadCommitMessage_undo :: "loadcommitmessage \<Rightarrow> world \<Rightarrow> world" where
  "LoadCommitMessage_undo self w =
     set_directory (old_directory self)
       (set_commitmsg (loadcommitmessage.old_commitmsg self) w)"

definition LoadCommitTemplate_init :: "ext \<Rightarrow> main_model \<Rightarrow> loadcommitmessage" where
  "LoadCommitTemplate_init x m = LoadCommitMessage_init m (config x ''commit.template'')"

definition LoadCommitTemplate_do ::
  "ext \<Rightarrow> loadcommitmessage \<Rightarrow> world \<Rightarrow> py_error option \<times> world" where
  \<open>LoadCommitTemplate_do x self w =
     (if path self = None
      then (Some (UsageError ''Error: unconfigured commit template''
               (''A commit template has not been configured.\<newline>'' @
                ''Use "git config" to define "commit.template"\<newline>'' @
                ''so that it points to a commit template.'')), w)
      else LoadCommitMessage_do x self w)\<close>

subsection \<open>LoadPreviousMessage\<close>

definition LoadPreviousMessage_init :: "ext \<Rightarrow> main_model \<Rightarrow> string \<Rightarrow> loadpreviousmessage" where
  "LoadPreviousMessage_init x m sha1' =
     (let self = command.extend (Command_init m)
                   (loadpreviousmessage.fields sha1' (commitmsg m) (prev_commitmsg x (Some sha1')))
      in self\<lparr>undoable := True\<rparr>)"

definition LoadPreviousMessage_do :: "loadpreviousmessage \<Rightarrow> world \<Rightarrow> world" where
  "LoadPreviousMessage_do self w = set_commitmsg (loadpreviousmessage.new_commitmsg self) w"

definition LoadPreviousMessage_undo :: "loadpreviousmessage \<Rightarrow> world \<Rightarrow> world" where
  "LoadPreviousMessage_undo self w = set_commitmsg (loadpreviousmessage.old_commitmsg self) w"

subsection \<open>SetDiffText\<close>

definition SetDiffText_init :: "main_model \<Rightarrow> string \<Rightarrow> command" where
  "SetDiffText_init m text' = (Command_init m)\<lparr>undoable := True, new_diff_text := text'\<rparr>"

subsection \<open>SignOff\<close>

definition SignOff_init :: "main_model \<Rightarrow> signoff" where
  "SignOff_init m =
     (let self = command.extend (Command_init m) (signoff.fields (commitmsg m))
      in self\<lparr>undoable := True\<rparr>)"

text \<open>
  \<^verbatim>\<open>SignOff.signoff\<close>: only the \<^verbatim>\<open>ImportError\<close> of \<^verbatim>\<open>import pwd\<close> is caught; the
  \<^verbatim>\<open>KeyError\<close> of \<^verbatim>\<open>pwd.getpwuid\<close> for an unknown uid leaves the method.
\<close>

definition SignOff_signoff :: "ext \<Rightarrow> world \<Rightarrow> py_error + string" where
  "SignOff_signoff x w =
     (case (case getpwuid x of
              Pwd_name u \<Rightarrow> Inr u
            | Pwd_KeyError \<Rightarrow> Inl KeyError
            | Pwd_ImportError \<Rightarrow>
                Inr (case environ w ''USER'' of None \<Rightarrow> ''unknown'' | Some u \<Rightarrow> u)) of
        Inl e \<Rightarrow> Inl e
      | Inr user \<Rightarrow>
          let name' = config_get x ''user.name'' user;
              email = config_get x ''user.email'' (user @ ''@'' @ platform_node x)
          in Inr (''\<newline>Signed-off-by: '' @ name' @ '' <'' @ email @ ''>''))"

definition SignOff_do :: "ext \<Rightarrow> signoff \<Rightarrow> world \<Rightarrow> py_error option \<times> world" where
  "SignOff_do x self w =
     (case SignOff_signoff x w of
        Inl e \<Rightarrow> (Some e, w)
      | Inr signoff' \<Rightarrow>
          if sublist signoff' (commitmsg (model w)) then (None, w)
          else (None, set_commitmsg (commitmsg (model w) @ ''\<newline>'' @ signoff') w))"

definition SignOff_undo :: "signoff \<Rightarrow> world \<Rightarrow> world" where
  "SignOff_undo self w = set_commitmsg (signoff.old_commitmsg self) w"

section \<open>ResetMode and Commit\<close>

definition ResetMode_init :: "main_model \<Rightarrow> command" where
  "ResetMode_init m =
     (Command_init m)\<lparr>new_mode := mode_none, new_head := ''HEAD'', new_diff_text := []\<rparr>"

definition ResetMode_do :: "ext \<Rightarrow> 'a command_scheme \<Rightarrow> world \<Rightarrow> world" where
  "ResetMode_do x self w = update_file_status x (Command_do self w)"

text \<open>
  Modelled from the spec: \<^verbatim>\<open>model.commit_with_msg\<close>, which is not part of the sources.
  The spec's commit pipeline says that it "writes the message to a fresh temporary file,
  invokes the VCS commit operation with that file and the amend flag" and yields the exit
  status and the output; it writes no field of the model.
\<close>

definition commit_with_msg ::
  "ext \<Rightarrow> string \<Rightarrow> string \<Rightarrow> bool \<Rightarrow> world \<Rightarrow> (int \<times> string) \<times> world" where
  "commit_with_msg x msg' tmpfile amend' w =
     (commit_result x, emit (Call_commit_with_msg msg' tmpfile amend') w)"

definition Commit_init :: "main_model \<Rightarrow> bool \<Rightarrow> string \<Rightarrow> commit" where
  "Commit_init m amend' msg' =
     command.extend (ResetMode_init m)
       (commit.fields amend' (core_encode msg') (commitmsg m) [])"

definition Commit_do :: "ext \<Rightarrow> commit \<Rightarrow> world \<Rightarrow> world" where
  "Commit_do x self w =
     (let tmpfile = tmp_filename x ''commit-message'';
          ((status, output), w) = commit_with_msg x (msg self) tmpfile (amend self) w
      in if status = 0
         then
           let w = ResetMode_do x self w;
               w = set_commitmsg (commit.new_commitmsg self) w;
               title = ''Commit: ''
           in emit (Broadcast_log_cmd status (title @ output)) w
         else
           let title = ''Commit failed: ''
           in emit (Broadcast_log_cmd status (title @ output)) w)"

section \<open>Dispatch\<close>

text \<open>
  The signals of \<^verbatim>\<open>register()\<close> for the classes above, with the arguments that the
  factory hands to the constructor.
\<close>

datatype signal =
    amend_mode bool
  | load_commit_message "string option"
  | load_commit_template
  | load_previous_message string
  | set_diff_text_signal string
  | signoff_signal
  | reset_mode
  | commit_signal bool string

fun construct :: "ext \<Rightarrow> cmdobj list \<Rightarrow> main_model \<Rightarrow> signal \<Rightarrow> cmdobj" where
  "construct x undostack m (amend_mode a) = AmendMode (AmendMode_init x undostack m a)"
| "construct x undostack m (load_commit_message p) = LoadCommitMessage (LoadCommitMessage_init m p)"
| "construct x undostack m load_commit_template = LoadCommitTemplate (LoadCommitTemplate_init x m)"
| "construct x undostack m (load_previous_message s) =
     LoadPreviousMessage (LoadPreviousMessage_init x m s)"
| "construct x undostack m (set_diff_text_signal t) = SetDiffText (SetDiffText_init m t)"
| "construct x undostack m signoff_signal = SignOff (SignOff_init m)"
| "construct x undostack m reset_mode = ResetMode (ResetMode_init m)"
| "construct x undostack m (commit_signal a t) = Commit (Commit_init m a t)"

fun is_undoable :: "cmdobj \<Rightarrow> bool" where
  "is_undoable (AmendMode c) = undoable c"
| "is_undoable (LoadCommitMessage c) = undoable c"
| "is_undoable (LoadCommitTemplate c) = undoable c"
| "is_undoable (LoadPreviousMessage c) = undoable c"
| "is_undoable (SetDiffText c) = undoable c"
| "is_undoable (SignOff c) = undoable c"
| "is_undoable (ResetMode c) = undoable c"
| "is_undoable (Commit c) = undoable c"

text \<open>
  \<^verbatim>\<open>cmdobj.do()\<close> and \<^verbatim>\<open>cmdobj.undo()\<close> by class. A class that does not override a
  method runs the one of \<^verbatim>\<open>Command\<close>. The object comes back because \<^verbatim>\<open>AmendMode\<close>
  writes its \<^verbatim>\<open>skip\<close> attribute.
\<close>

fun cmd_do :: "ext \<Rightarrow> cmdobj \<Rightarrow> world \<Rightarrow> py_error option \<times> cmdobj \<times> world" where
  "cmd_do x (AmendMode c) w = (let (c', w') = AmendMode_do x c w in (None, AmendMode c', w'))"
| "cmd_do x (LoadCommitMessage c) w =
     (let (e, w') = LoadCommitMessage_do x c w in (e, LoadCommitMessage c, w'))"
| "cmd_do x (LoadCommitTemplate c) w =
     (let (e, w') = LoadCommitTemplate_do x c w in (e, LoadCommitTemplate c, w'))"
| "cmd_do x (LoadPreviousMessage c) w = (None, LoadPreviousMessage c, LoadPreviousMessage_do c w)"
| "cmd_do x (SetDiffText c) w = (None, SetDiffText c, Command_do c w)"
| "cmd_do x (SignOff c) w = (let (e, w') = SignOff_do x c w in (e, SignOff c, w'))"
| "cmd_do x (ResetMode c) w = (None, ResetMode c, ResetMode_do x c w)"
| "cmd_do x (Commit c) w = (None, Commit c, Commit_do x c w)"

fun cmd_undo :: "ext \<Rightarrow> cmdobj \<Rightarrow> world \<Rightarrow> cmdobj \<times> world" where
  "cmd_undo x (AmendMode c) w = (let (c', w') = AmendMode_undo x c w in (AmendMode c', w'))"
| "cmd_undo x (LoadCommitMessage c) w = (LoadCommitMessage c, LoadCommitMessage_undo c w)"
| "cmd_undo x (LoadCommitTemplate c) w = (LoadCommitTemplate c, LoadCommitMessage_undo c w)"
| "cmd_undo x (LoadPreviousMessage c) w = (LoadPreviousMessage c, LoadPreviousMessage_undo c w)"
| "cmd_undo x (SetDiffText c) w = (SetDiffText c, Command_undo c w)"
| "cmd_undo x (SignOff c) w = (SignOff c, SignOff_undo c w)"
| "cmd_undo x (ResetMode c) w = (ResetMode c, Command_undo c w)"
| "cmd_undo x (Commit c) w = (Commit c, Command_undo c w)"

section \<open>Stage, Unstage, UnstageAll and Untrack\<close>

definition Stage_init :: "main_model \<Rightarrow> string list \<Rightarrow> stage" where
  "Stage_init m paths' = command.extend (Command_init m) (stage.fields paths')"

definition Stage_do :: "ext \<Rightarrow> stage \<Rightarrow> world \<Rightarrow> world" where
  "Stage_do x self w =
     (let msg' = ''Staging: '' @ join '', '' (stage.paths self);
          w = emit (Broadcast_log_cmd 0 msg') w
      in stage_paths x (stage.paths self) w)"

definition Unstage_init :: "main_model \<Rightarrow> string list \<Rightarrow> unstage" where
  "Unstage_init m paths' = command.extend (Command_init m) (unstage.fields paths')"

definition Unstage_do :: "ext \<Rightarrow> unstage \<Rightarrow> world \<Rightarrow> world" where
  "Unstage_do x self w =
     (let msg' = ''Unstaging: '' @ join '', '' (unstage.paths self);
          w = emit (Broadcast_log_cmd 0 msg') w
      in unstage_paths x (unstage.paths self) w)"

definition UnstageAll_init :: "main_model \<Rightarrow> command" where
  "UnstageAll_init m = Command_init m"

definition UnstageAll_do :: "ext \<Rightarrow> command \<Rightarrow> world \<Rightarrow> world" where
  "UnstageAll_do x self w = unstage_all x w"

definition Untrack_init :: "main_model \<Rightarrow> string list \<Rightarrow> untrack" where
  "Untrack_init m paths' = command.extend (Command_init m) (untrack.fields paths')"

definition Untrack_do :: "ext \<Rightarrow> untrack \<Rightarrow> world \<Rightarrow> world" where
  "Untrack_do x self w =
     (let msg' = ''Untracking: '' @ join '', '' (untrack.paths self);
          w = emit (Broadcast_log_cmd 0 msg') w;
          ((status, out), w) = untrack_paths x (untrack.paths self) w
      in emit (Broadcast_log_cmd status out) w)"

section \<open>ApplyPatches\<close>

text \<open>
  \<^verbatim>\<open>patches.sort()\<close> sorts a list of strings in place, by the order of the strings.
\<close>

definition ApplyPatches_init :: "main_model \<Rightarrow> string list \<Rightarrow> applypatches" where
  "ApplyPatches_init m patches' =
     command.extend (Command_init m) (applypatches.fields (sort patches'))"

text \<open>
  The loop over \<^verbatim>\<open>enumerate(self.patches)\<close>, threading \<^verbatim>\<open>diff_text\<close> and the world.
\<close>

fun am_loop :: "ext \<Rightarrow> nat \<Rightarrow> (nat \<times> string) list \<Rightarrow> string \<Rightarrow> world \<Rightarrow> string \<times> world" where
  "am_loop x num_patches [] dt w = (dt, w)"
| "am_loop x num_patches ((idx, patch) # rest) dt w =
     (let (status, output) = am_result x idx patch;
          w = emit (Git_am patch) w;
          w = emit (Broadcast_log_cmd status output) w
      in if num_patches > 1
         then
           let diff = diff_stat_result x idx ''HEAD^!'';
               w = emit (Git_diff_stat ''HEAD^!'') w;
               dt = dt @ ''Patch '' @ str_nat (idx + 1) @ ''/'' @ str_nat num_patches @ '' - '';
               dt = dt @ basename patch @ '':\<newline>'' @ diff @ ''\<newline>\<newline>''
           in am_loop x num_patches rest dt w
         else am_loop x num_patches rest dt w)"

definition ApplyPatches_do :: "ext \<Rightarrow> applypatches \<Rightarrow> world \<Rightarrow> world" where
  "ApplyPatches_do x self w =
     (let dt = [];
          num_patches = length (patches self);
          orig_head = rev_parse_result x;
          w = emit (Git_rev_parse ''HEAD'') w;
          (dt, w) = am_loop x num_patches (enumerate 0 (patches self)) dt w;
          dt = dt @ ''Summary:\<newline>'';
          dt = dt @ diff_stat_result x num_patches orig_head;
          w = emit (Git_diff_stat orig_head) w;
          w = set_diff_text dt w;
          w = update_file_status x w
      in emit (Prompt_information ''Patch(es) Applied''
                (str_nat (length (patches self)) @ '' patch(es) applied:\<newline>\<newline>'' @
                 join ''\<newline>'' (map basename (patches self)))) w)"

text \<open>The arguments of the \<^verbatim>\<open>git am\<close> calls in a trace, in order.\<close>

fun am_calls :: "event list \<Rightarrow> string list" where
  "am_calls [] = []"
| "am_calls (Git_am patch # es) = patch # am_calls es"
| "am_calls (_ # es) = am_calls es"

section \<open>RunConfigAction\<close>

definition RunConfigAction_init :: "main_model \<Rightarrow> string \<Rightarrow> runconfigaction" where
  "RunConfigAction_init m name' = command.extend (Command_init m) (runconfigaction.fields name')"

datatype run_result = Return_None | Return_status int | Raise py_error

definition opts_get :: "opts \<Rightarrow> string \<Rightarrow> optval" where
  "opts_get opts' key = (case opts' key of None \<Rightarrow> ONone | Some v \<Rightarrow> v)"

text \<open>The truth value of an option in an \<^verbatim>\<open>if\<close>, and \<^verbatim>\<open>'%s' % value\<close>.\<close>

fun truthy :: "optval \<Rightarrow> bool" where
  "truthy ONone = False"
| "truthy (OBool b) = b"
| "truthy (OStr s) = (s \<noteq> [])"

fun py_str :: "optval \<Rightarrow> string" where
  "py_str ONone = ''None''"
| "py_str (OBool b) = (if b then ''True'' else ''False'')"
| "py_str (OStr s) = s"

text \<open>
  The \<^verbatim>\<open>while True\<close> loop of the revision and argument prompt. The dialog behind
  \<^verbatim>\<open>_factory.prompt_user(signals.run_config_action, cmd, opts)\<close> answers whether to go
  on and writes the \<^verbatim>\<open>opts\<close> dictionary; the list holds its answers still to come, and
  with no answer left the loop does not return (\<open>None\<close>). The result is \<^verbatim>\<open>ok\<close>, the
  dictionary, \<^verbatim>\<open>rev\<close> and \<^verbatim>\<open>args\<close>.
\<close>

fun prompt_loop ::
  "optval \<Rightarrow> opts \<Rightarrow> (bool \<times> opts) list \<Rightarrow> world \<Rightarrow>
     ((bool \<times> opts \<times> optval \<times> optval) \<times> world) option" where
  "prompt_loop cmd opts' [] w = None"
| "prompt_loop cmd opts' ((ok, answered) # rest) w =
     (let w = emit (Prompt_run_config_action (py_str cmd)) w;
          opts' = answered
      in if \<not> ok then Some ((False, opts', ONone, ONone), w)
         else
           let rev' = opts_get opts' ''revision'';
               args = opts_get opts' ''args''
           in if truthy (opts_get opts' ''revprompt'') \<and> \<not> truthy rev'
              then
                let title = ''Invalid Revision'';
                    msg' = ''The revision expression cannot be empty.'';
                    w = emit (Prompt_critical title msg') w
                in prompt_loop cmd opts' rest w
              else Some ((True, opts', rev', args), w))"

text \<open>
  The part of \<^verbatim>\<open>do()\<close> from \<^verbatim>\<open>if rev:\<close> on. \<^verbatim>\<open>os.environ[key] = value\<close> and
  \<^verbatim>\<open>os.path.expandvars(value)\<close> need a string.
\<close>

definition run_tool ::
  "ext \<Rightarrow> optval \<Rightarrow> opts \<Rightarrow> optval \<Rightarrow> optval \<Rightarrow> world \<Rightarrow> run_result \<times> world" where
  "run_tool x cmd opts' rev' args w =
     (case (if truthy rev'
            then (case rev' of OStr r \<Rightarrow> Inr (w\<lparr>environ := (environ w)(''REVISION'' \<mapsto> r)\<rparr>)
                  | _ \<Rightarrow> Inl TypeError)
            else Inr w) of
        Inl e \<Rightarrow> (Raise e, w)
      | Inr w \<Rightarrow>
     (case (if truthy args
            then (case args of OStr a \<Rightarrow> Inr (w\<lparr>environ := (environ w)(''ARGS'' \<mapsto> a)\<rparr>)
                  | _ \<Rightarrow> Inl TypeError)
            else Inr w) of
        Inl e \<Rightarrow> (Raise e, w)
      | Inr w \<Rightarrow>
     (case cmd of
        OStr c \<Rightarrow>
          let title = expandvars x (environ w) c;
              w = emit (Broadcast_log_cmd 0 (''running: '' @ title)) w;
              argv = [''sh'', ''-c'', c];
              (status, out, err) = run_command_result x;
              w = (if truthy (opts_get opts' ''noconsole'')
                   then emit (Run_command argv) w
                   else emit (Prompt_run_command title argv) w);
              w = emit (Broadcast_log_cmd status
                          (''stdout: '' @ rstrip out @ ''\<newline>status: '' @ str_int status @
                           ''\<newline>stderr: '' @ rstrip err)) w;
              w = (if \<not> truthy (opts_get opts' ''norescan'') then update_status x w else w)
          in (Return_status status, w)
      | _ \<Rightarrow> (Raise TypeError, w))))"

definition RunConfigAction_do ::
  "ext \<Rightarrow> runconfigaction \<Rightarrow> world \<Rightarrow> (run_result \<times> world) option" where
  \<open>RunConfigAction_do x self w =
     (let w = w\<lparr>environ := (environ w)(''FILENAME'' := None, ''REVISION'' := None,
                                          ''ARGS'' := None)\<rparr>;
          rev' = ONone;
          args = ONone;
          opts' = guitool_opts x (name self);
          cmd = opts_get opts' ''cmd'';
          opts' = (if ''title'' \<notin> dom opts' then opts'(''title'' \<mapsto> cmd) else opts');
          opts' = (if ''prompt'' \<notin> dom opts' \<or> opts_get opts' ''prompt'' = OBool True
                   then opts'(''prompt'' \<mapsto> OStr (translated_prompt x (py_str cmd)))
                   else opts')
      in if truthy (opts_get opts' ''needsfile'') \<and>
            (selection_filename x = None \<or> selection_filename x = Some [])
         then
           Some (Return_None,
                 emit (Prompt_information ''Please select a file''
                         (''"'' @ py_str cmd @ ''" requires a selected file'')) w)
         else
           let w = (if truthy (opts_get opts' ''needsfile'')
                    then w\<lparr>environ := (environ w)(''FILENAME'' \<mapsto> the (selection_filename x))\<rparr>
                    else w)
           in if truthy (opts_get opts' ''revprompt'') \<or> truthy (opts_get opts' ''argprompt'')
              then
                (case prompt_loop cmd opts' (run_config_answers x) w of
                   None \<Rightarrow> None
                 | Some ((ok, opts', rev', args), w) \<Rightarrow>
                     if \<not> ok then Some (Return_None, w)
                     else Some (run_tool x cmd opts' rev' args w))
              else if truthy (opts_get opts' ''confirm'')
              then
                (case (opts_get opts' ''title'', opts_get opts' ''prompt'') of
                   (OStr t, OStr p) \<Rightarrow>
                     let title = expandvars x (environ w) t;
                         prompt = expandvars x (environ w) p;
                         w = emit (Prompt_question title prompt) w
                     in if \<not> question_answer x then Some (Return_None, w)
                        else Some (run_tool x cmd opts' rev' args w)
                 | _ \<Rightarrow> Some (Raise TypeError, w))
              else Some (run_tool x cmd opts' rev' args w))\<close>

text \<open>The shell runs in a trace: a silent run or a run in the console prompt.\<close>

fun shell_runs :: "event list \<Rightarrow> event list" where
  "shell_runs [] = []"
| "shell_runs (Run_command argv # es) = Run_command argv # shell_runs es"
| "shell_runs (Prompt_run_command t argv # es) = Prompt_run_command t argv # shell_runs es"
| "shell_runs (_ # es) = shell_runs es"

section \<open>UntrackedSummary and ShowUntracked\<close>

text \<open>The loop \<^verbatim>\<open>for u in untracked: io.write('/'+core.encode(u))\<close>.\<close>

fun write_rules :: "string list \<Rightarrow> string \<Rightarrow> string" where
  "write_rules [] io = io"
| "write_rules (u # us) io = write_rules us (io @ ''/'' @ core_encode u)"

definition UntrackedSummary_init :: "main_model \<Rightarrow> command" where
  "UntrackedSummary_init m =
     (let self = Command_init m;
          untracked' = untracked m;
          suffix = (if length untracked' > 1 then ''s'' else []);
          io = ''# '' @ str_nat (length untracked') @ '' untracked file'' @ suffix @ ''\<newline>'';
          io = (if untracked' \<noteq> []
                then write_rules untracked' (io @ ''# possible .gitignore rule'' @ suffix @ '':\<newline>'')
                else io)
      in self\<lparr>new_diff_text := core_decode io, new_mode := mode_untracked\<rparr>)"

text \<open>\<^verbatim>\<open>text.split('\n')\<close>: the lines of a text.\<close>

fun lines :: "string \<Rightarrow> string list" where
  "lines [] = [[]]"
| "lines (c # cs) = (if c = CHR 0x0A then [] # lines cs
                     else (case lines cs of l # ls \<Rightarrow> (c # l) # ls | [] \<Rightarrow> [[c]]))"

text \<open>
  The body of the \<^verbatim>\<open>try\<close> in \<^verbatim>\<open>ShowUntracked.__init__\<close>: \<^verbatim>\<open>filenames[0]\<close> raises
  on an empty list, \<^verbatim>\<open>utils.slurp\<close> raises when the file cannot be read. The bare
  \<^verbatim>\<open>except\<close> catches both. The constructor's result is a sum, as for every call that
  could raise.
\<close>

definition slurp_first :: "ext \<Rightarrow> string list \<Rightarrow> py_error + string" where
  "slurp_first x filenames = (case filenames of [] \<Rightarrow> Inl IndexError | f # _ \<Rightarrow> slurp x f)"

definition ShowUntracked_init :: "ext \<Rightarrow> main_model \<Rightarrow> string list \<Rightarrow> py_error + command" where
  "ShowUntracked_init x m filenames =
     (let self = Command_init m;
          self = self\<lparr>new_mode := mode_untracked\<rparr>
      in case slurp_first x filenames of
           Inr content \<Rightarrow> Inr (self\<lparr>new_diff_text := content\<rparr>)
         | Inl e \<Rightarrow> Inr (self\<lparr>new_diff_text := []\<rparr>))"

section \<open>Derived notions used in the statements\<close>

text \<open>
  A command is constructed by the factory when its signal arrives and run at once, so the
  model that the constructor snapshots is the model that \<^verbatim>\<open>do()\<close> starts from.
  \<open>do_then_undo\<close> is the world after \<^verbatim>\<open>cmdobj.do()\<close> followed by \<^verbatim>\<open>cmdobj.undo()\<close>,
  also when \<^verbatim>\<open>do()\<close> has raised.
\<close>

definition do_then_undo :: "ext \<Rightarrow> ext \<Rightarrow> cmdobj \<Rightarrow> world \<Rightarrow> world" where
  "do_then_undo x1 x2 c w =
     (let (e, c1, w1) = cmd_do x1 c w;
          (c2, w2) = cmd_undo x2 c1 w1
      in w2)"

definition same_fields :: "main_model \<Rightarrow> main_model \<Rightarrow> bool" where
  "same_fields m m' \<longleftrightarrow>
     diff_text m' = diff_text m \<and> filename m' = filename m \<and> mode m' = mode m \<and>
     head m' = head m \<and> commitmsg m' = commitmsg m \<and> directory m' = directory m"

text \<open>
  The recovery rule for the commit message as the specification words it: walk the undo
  stack from the most recent entry to the oldest, skip everything except amend-entering
  \<^verbatim>\<open>AmendMode\<close> commands, stop at the first of these and take its message from before
  the entry; without one, take the live message.
\<close>

fun spec_walk :: "cmdobj list \<Rightarrow> string \<Rightarrow> string" where
  "spec_walk [] live = live"
| "spec_walk (AmendMode c # older) live =
     (if amending c then amendmode.old_commitmsg c else spec_walk older live)"
| "spec_walk (_ # older) live = spec_walk older live"

definition spec_recovered_commitmsg :: "cmdobj list \<Rightarrow> string \<Rightarrow> string" where
  "spec_recovered_commitmsg undostack live = spec_walk (rev undostack) live"

text \<open>\<^verbatim>\<open>undo()\<close> called again and again on one \<^verbatim>\<open>AmendMode\<close> object.\<close>

fun undo_many :: "ext list \<Rightarrow> amendmode \<Rightarrow> world \<Rightarrow> amendmode \<times> world" where
  "undo_many [] self w = (self, w)"
| "undo_many (x # xs) self w = (let (self, w) = AmendMode_undo x self w in undo_many xs self w)"

text \<open>The \<^verbatim>\<open>log_cmd\<close> broadcasts of a trace.\<close>

fun log_cmds :: "event list \<Rightarrow> event list" where
  "log_cmds [] = []"
| "log_cmds (Broadcast_log_cmd status t # es) = Broadcast_log_cmd status t # log_cmds es"
| "log_cmds (_ # es) = log_cmds es"

subsection \<open>A concrete repository\<close>

definition example_scan :: scan where
  "example_scan = \<lparr>scan_staged = [''x.py''], scan_modified = [], scan_unmerged = [],
     scan_untracked = [''a.txt'']\<rparr>"

definition example_ext :: ext where
  "example_ext =
     \<lparr>path_exists = (\<lambda>p. False),
      path_isfile = (\<lambda>p. p = ''/repo/msg.txt''),
      slurp = (\<lambda>p. if p = ''/repo/msg.txt'' then Inr ''Fix the parser'' else Inl IOError),
      git_path = (\<lambda>n. ''.git/'' @ n),
      prev_commitmsg = (\<lambda>s. ''Initial import''),
      status_scan = example_scan,
      config = Map.empty,
      getpwuid = Pwd_name ''ada'',
      platform_node = ''host'',
      tmp_filename = (\<lambda>s. ''/tmp/'' @ s),
      commit_result = (0, ''1 file changed''),
      untrack_result = (0, ''rm x.py''),
      rev_parse_result = ''abc123'',
      am_result = (\<lambda>i p. (0, ''Applying'')),
      diff_stat_result = (\<lambda>i r. ''1 file changed''),
      guitool_opts = (\<lambda>n. [''cmd'' \<mapsto> OStr ''make'', ''needsfile'' \<mapsto> OBool True]),
      selection_filename = None,
      translated_prompt = (\<lambda>c. ''Are you sure you want to run '' @ c @ ''?''),
      expandvars = (\<lambda>env s. s),
      run_config_answers = [],
      question_answer = True,
      run_command_result = (0, [], [])\<rparr>"

definition merging_ext :: ext where
  "merging_ext = example_ext\<lparr>path_exists := \<lambda>p. p = ''.git/MERGE_HEAD''\<rparr>"

definition failing_commit_ext :: ext where
  "failing_commit_ext = example_ext\<lparr>commit_result := (1, ''nothing to commit'')\<rparr>"

definition example_world :: world where
  "example_world =
     \<lparr>model = \<lparr>diff_text = ''diff --git a/x.py b/x.py'', filename = Some ''x.py'',
                mode = mode_worktree, head = ''HEAD'', commitmsg = ''Fix the parser'',
                directory = ''/repo'', staged = [], modified = [''x.py''], unmerged = [],
                untracked = [''a.txt'', ''b.txt'']\<rparr>,
      environ = [''FILENAME'' \<mapsto> ''old.txt''],
      events = []\<rparr>"

definition signed_world :: world where
  "signed_world = set_commitmsg ''Fix the parser\<newline>\<newline>Signed-off-by: ada <ada@host>'' example_world"

text \<open>
  An undo stack, oldest entry first: amend mode entered while the message was
  \<open>''Work in progress''\<close>, a diff text set, amend mode left.
\<close>

definition example_undostack :: "cmdobj list" where
  "example_undostack =
     [AmendMode (AmendMode_init example_ext []
        ((model example_world)\<lparr>commitmsg := ''Work in progress''\<rparr>) True),
      SetDiffText (SetDiffText_init (model example_world) ''stat''),
      AmendMode (AmendMode_init example_ext [] (model example_world) False)]"

section \<open>The effect of the setters on each part of the world\<close>

lemma model_simps:
  "model (emit e w) = model w"
  "model (set_diff_text a w) = (model w)\<lparr>diff_text := a\<rparr>"
  "model (set_filename b w) = (model w)\<lparr>filename := b\<rparr>"
  "model (set_mode c w) = (model w)\<lparr>mode := c\<rparr>"
  "model (set_head d w) = (model w)\<lparr>head := d\<rparr>"
  "model (set_commitmsg f w) = (model w)\<lparr>commitmsg := f\<rparr>"
  "model (set_directory g w) = (model w)\<lparr>directory := g\<rparr>"
  "model (rescan sc w) = (model w)\<lparr>staged := scan_staged sc, modified := scan_modified sc,
      unmerged := scan_unmerged sc, untracked := scan_untracked sc\<rparr>"
  by (simp_all add: emit_def set_diff_text_def set_filename_def set_mode_def set_head_def
      set_commitmsg_def set_directory_def rescan_def)

lemma events_simps:
  "events (emit e w) = events w @ [e]"
  "events (set_diff_text a w) = events w"
  "events (set_filename b w) = events w"
  "events (set_mode c w) = events w"
  "events (set_head d w) = events w"
  "events (set_commitmsg f w) = events w"
  "events (set_directory g w) = events w"
  "events (rescan sc w) = events w"
  by (simp_all add: emit_def set_diff_text_def set_filename_def set_mode_def set_head_def
      set_commitmsg_def set_directory_def rescan_def)

lemma environ_simps:
  "environ (emit e w) = environ w"
  "environ (set_diff_text a w) = environ w"
  "environ (set_filename b w) = environ w"
  "environ (set_mode c w) = environ w"
  "environ (set_head d w) = environ w"
  "environ (set_commitmsg f w) = environ w"
  "environ (set_directory g w) = environ w"
  "environ (rescan sc w) = environ w"
  by (simp_all add: emit_def set_diff_text_def set_filename_def set_mode_def set_head_def
      set_commitmsg_def set_directory_def rescan_def)

section \<open>Undo after do\<close>

text \<open>The search of the undo stack writes \<^verbatim>\<open>new_commitmsg\<close> and nothing else.\<close>

lemma undostack_search_frame:
  "\<exists>s. undostack_search st n is self = self\<lparr>amendmode.new_commitmsg := s\<rparr>"
proof (induction "is")
  case Nil
  have "self = self\<lparr>amendmode.new_commitmsg := amendmode.new_commitmsg self\<rparr>" by simp
  then show ?case by (metis undostack_search.simps(1))
next
  case (Cons i rest)
  then show ?case by (auto simp: Let_def split: cmdobj.splits)
qed

lemma undostack_search_fields:
  "old_diff_text (undostack_search st n is self) = old_diff_text self"
  "old_filename (undostack_search st n is self) = old_filename self"
  "old_mode (undostack_search st n is self) = old_mode self"
  "old_head (undostack_search st n is self) = old_head self"
  "new_diff_text (undostack_search st n is self) = new_diff_text self"
  "new_filename (undostack_search st n is self) = new_filename self"
  "new_mode (undostack_search st n is self) = new_mode self"
  "new_head (undostack_search st n is self) = new_head self"
  "amendmode.old_commitmsg (undostack_search st n is self) = amendmode.old_commitmsg self"
  "undoable (undostack_search st n is self) = undoable self"
  "amending (undostack_search st n is self) = amending self"
  "skip (undostack_search st n is self) = skip self"
proof -
  obtain s where s: "undostack_search st n is self = self\<lparr>amendmode.new_commitmsg := s\<rparr>"
    using undostack_search_frame by blast
  show "old_diff_text (undostack_search st n is self) = old_diff_text self"
    "old_filename (undostack_search st n is self) = old_filename self"
    "old_mode (undostack_search st n is self) = old_mode self"
    "old_head (undostack_search st n is self) = old_head self"
    "new_diff_text (undostack_search st n is self) = new_diff_text self"
    "new_filename (undostack_search st n is self) = new_filename self"
    "new_mode (undostack_search st n is self) = new_mode self"
    "new_head (undostack_search st n is self) = new_head self"
    "amendmode.old_commitmsg (undostack_search st n is self) = amendmode.old_commitmsg self"
    "undoable (undostack_search st n is self) = undoable self"
    "amending (undostack_search st n is self) = amending self"
    "skip (undostack_search st n is self) = skip self"
    by (simp_all add: s)
qed

lemma AmendMode_init_old:
  "old_diff_text (AmendMode_init x st m a) = diff_text m"
  "old_filename (AmendMode_init x st m a) = filename m"
  "old_mode (AmendMode_init x st m a) = mode m"
  "old_head (AmendMode_init x st m a) = head m"
  "amendmode.old_commitmsg (AmendMode_init x st m a) = commitmsg m"
  "undoable (AmendMode_init x st m a)"
  "amending (AmendMode_init x st m a) = a"
  by (simp_all add: AmendMode_init_def Let_def command.defs amendmode.defs Command_init_def
      undostack_search_fields)

lemma AmendMode_roundtrip:
  assumes "AmendMode_do x1 (AmendMode_init x0 st (model w) a) w = (c1, w1)"
    and "AmendMode_undo x2 c1 w1 = (c2, w2)"
  shows "same_fields (model w) (model w2)"
  using assms
  by (auto simp: AmendMode_do_def AmendMode_undo_def Let_def AmendMode_init_old model_simps
      Command_do_def Command_undo_def update_file_status_def same_fields_def split: if_splits)

lemma LoadCommitMessage_roundtrip:
  assumes "LoadCommitMessage_do x1 (LoadCommitMessage_init (model w) p) w = (e, w1)"
  shows "same_fields (model w)
           (model (LoadCommitMessage_undo (LoadCommitMessage_init (model w) p) w1))"
  using assms
  by (auto simp: LoadCommitMessage_do_def LoadCommitMessage_undo_def LoadCommitMessage_init_def
      Let_def model_simps command.defs loadcommitmessage.defs Command_init_def same_fields_def
      split: if_splits sum.splits)

lemma LoadCommitTemplate_roundtrip:
  assumes "LoadCommitTemplate_do x1 (LoadCommitTemplate_init x0 (model w)) w = (e, w1)"
  shows "same_fields (model w)
           (model (LoadCommitMessage_undo (LoadCommitTemplate_init x0 (model w)) w1))"
  using assms LoadCommitMessage_roundtrip [of x1 w "config x0 ''commit.template''" e w1]
  by (auto simp: LoadCommitTemplate_do_def LoadCommitTemplate_init_def split: if_splits)
     (auto simp: LoadCommitMessage_undo_def LoadCommitMessage_init_def Let_def model_simps
      command.defs loadcommitmessage.defs Command_init_def same_fields_def)

lemma LoadPreviousMessage_roundtrip:
  "same_fields (model w)
     (model (LoadPreviousMessage_undo (LoadPreviousMessage_init x0 (model w) s)
        (LoadPreviousMessage_do (LoadPreviousMessage_init x0 (model w) s) w)))"
  by (simp add: LoadPreviousMessage_do_def LoadPreviousMessage_undo_def
      LoadPreviousMessage_init_def Let_def model_simps command.defs loadpreviousmessage.defs
      Command_init_def same_fields_def)

lemma SetDiffText_roundtrip:
  "same_fields (model w)
     (model (Command_undo (SetDiffText_init (model w) t)
        (Command_do (SetDiffText_init (model w) t) w)))"
  by (simp add: SetDiffText_init_def Command_do_def Command_undo_def model_simps
      Command_init_def same_fields_def)

lemma SignOff_roundtrip:
  assumes "SignOff_do x1 (SignOff_init (model w)) w = (e, w1)"
  shows "same_fields (model w) (model (SignOff_undo (SignOff_init (model w)) w1))"
  using assms
  by (auto simp: SignOff_do_def SignOff_undo_def SignOff_init_def Let_def model_simps
      command.defs signoff.defs Command_init_def same_fields_def split: if_splits sum.splits)

lemma do_then_undo_same_fields:
  assumes "is_undoable (construct x0 st (model w) sg)"
  shows "same_fields (model w) (model (do_then_undo x1 x2 (construct x0 st (model w) sg) w))"
proof (cases sg)
  case (amend_mode a)
  then show ?thesis
    using AmendMode_roundtrip [of x1 x0 st w a _ _ x2]
    by (auto simp: do_then_undo_def split: prod.splits)
next
  case (load_commit_message p)
  then show ?thesis
    using LoadCommitMessage_roundtrip [of x1 w p]
    by (auto simp: do_then_undo_def split: prod.splits)
next
  case load_commit_template
  then show ?thesis
    using LoadCommitTemplate_roundtrip [of x1 x0 w]
    by (auto simp: do_then_undo_def split: prod.splits)
next
  case (load_previous_message s)
  then show ?thesis
    using LoadPreviousMessage_roundtrip [of w x0 s] by (simp add: do_then_undo_def)
next
  case (set_diff_text_signal t)
  then show ?thesis
    using SetDiffText_roundtrip [of w t] by (simp add: do_then_undo_def)
next
  case signoff_signal
  then show ?thesis
    using SignOff_roundtrip [of x1 w]
    by (auto simp: do_then_undo_def split: prod.splits)
next
  case reset_mode
  then show ?thesis
    using assms by (simp add: ResetMode_init_def Command_init_def)
next
  case (commit_signal a t)
  then show ?thesis
    using assms
    by (simp add: Commit_init_def ResetMode_init_def Command_init_def command.defs commit.defs)
qed

text \<open>
  C1. For every command whose \<^verbatim>\<open>is_undoable()\<close> is true, \<^verbatim>\<open>undo()\<close> right after
  \<^verbatim>\<open>do()\<close> puts the diff text, the filename, the mode and the head of the model back to
  what they were before \<^verbatim>\<open>do()\<close>, and with them the fields that single commands write:
  the commit message (\<^verbatim>\<open>AmendMode\<close>, \<^verbatim>\<open>LoadCommitMessage\<close>, \<^verbatim>\<open>LoadCommitTemplate\<close>,
  \<^verbatim>\<open>LoadPreviousMessage\<close>, \<^verbatim>\<open>SignOff\<close>) and the directory (\<^verbatim>\<open>LoadCommitMessage\<close>,
  \<^verbatim>\<open>LoadCommitTemplate\<close>). The collaborators may answer anything, during the construction
  (\<open>x0\<close>), during \<^verbatim>\<open>do()\<close> (\<open>x1\<close>, also when it raises) and during \<^verbatim>\<open>undo()\<close>
  (\<open>x2\<close>).
\<close>

theorem undo_after_do_restores:
  assumes "is_undoable (construct x0 st (model w) sg)"
  shows "diff_text (model (do_then_undo x1 x2 (construct x0 st (model w) sg) w)) = diff_text (model w) \<and>
         filename (model (do_then_undo x1 x2 (construct x0 st (model w) sg) w)) = filename (model w) \<and>
         mode (model (do_then_undo x1 x2 (construct x0 st (model w) sg) w)) = mode (model w) \<and>
         head (model (do_then_undo x1 x2 (construct x0 st (model w) sg) w)) = head (model w) \<and>
         commitmsg (model (do_then_undo x1 x2 (construct x0 st (model w) sg) w)) = commitmsg (model w) \<and>
         directory (model (do_then_undo x1 x2 (construct x0 st (model w) sg) w)) = directory (model w)"
  using do_then_undo_same_fields [OF assms, of x1 x2] by (simp add: same_fields_def)

text \<open>
  Entering amend mode in the concrete repository and undoing it: the commit message
  goes to the one of the previous commit and comes back.
\<close>

theorem undo_after_do_restores_witness:
  "is_undoable (construct example_ext [] (model example_world) (amend_mode True)) \<and>
   commitmsg (model (snd (snd (cmd_do example_ext
      (construct example_ext [] (model example_world) (amend_mode True)) example_world)))) =
     ''Initial import'' \<and>
   commitmsg (model (do_then_undo example_ext example_ext
      (construct example_ext [] (model example_world) (amend_mode True)) example_world)) =
     ''Fix the parser'' \<and>
   mode (model (do_then_undo example_ext example_ext
      (construct example_ext [] (model example_world) (amend_mode True)) example_world)) =
     mode_worktree"
proof -
  have u: "is_undoable (construct example_ext [] (model example_world) (amend_mode True))"
    by (simp add: AmendMode_init_old)
  have d: "commitmsg (model (snd (snd (cmd_do example_ext
      (construct example_ext [] (model example_world) (amend_mode True)) example_world)))) =
     ''Initial import''"
    by (simp add: AmendMode_do_def AmendMode_init_def Let_def command.defs amendmode.defs
        Command_init_def Command_do_def update_file_status_def model_simps example_ext_def
        split: prod.splits)
  show ?thesis
    using u d undo_after_do_restores [OF u, of example_ext example_ext]
    by (simp add: example_world_def)
qed

section \<open>Commit\<close>

text \<open>
  C2. \<^verbatim>\<open>Commit.do()\<close> resets the mode, the head and the diff text to the clean state
  (\<open>mode_none\<close>, \<open>''HEAD''\<close>, empty diff text) and clears the commit message only when
  the commit returns exit status zero. With a nonzero status the model is left as it was,
  and the one \<^verbatim>\<open>log_cmd\<close> broadcast has the title \<open>''Commit failed: ''\<close> instead of
  \<open>''Commit: ''\<close>.
\<close>

theorem Commit_do_resets_only_on_success:
  assumes "commit_result x = (status, output)"
  shows "(status = 0 \<longrightarrow>
            mode (model (Commit_do x (Commit_init m a t) w)) = mode_none \<and>
            head (model (Commit_do x (Commit_init m a t) w)) = ''HEAD'' \<and>
            diff_text (model (Commit_do x (Commit_init m a t) w)) = [] \<and>
            commitmsg (model (Commit_do x (Commit_init m a t) w)) = [] \<and>
            events (Commit_do x (Commit_init m a t) w) =
              events w @
                [Call_commit_with_msg (core_encode t) (tmp_filename x ''commit-message'') a,
                 Call_update_file_status,
                 Broadcast_log_cmd status (''Commit: '' @ output)]) \<and>
         (status \<noteq> 0 \<longrightarrow>
            model (Commit_do x (Commit_init m a t) w) = model w \<and>
            events (Commit_do x (Commit_init m a t) w) =
              events w @
                [Call_commit_with_msg (core_encode t) (tmp_filename x ''commit-message'') a,
                 Broadcast_log_cmd status (''Commit failed: '' @ output)])"
  using assms
  by (simp add: Commit_do_def Commit_init_def ResetMode_init_def ResetMode_do_def
      commit_with_msg_def Command_do_def update_file_status_def Command_init_def
      command.defs commit.defs model_simps events_simps Let_def)

text \<open>A commit that succeeds and a commit that fails with status 1.\<close>

theorem Commit_do_resets_only_on_success_witness:
  "commit_result example_ext = (0, ''1 file changed'') \<and>
   mode (model (Commit_do example_ext (Commit_init (model example_world) False ''Fix'')
      example_world)) = mode_none \<and>
   commitmsg (model (Commit_do example_ext (Commit_init (model example_world) False ''Fix'')
      example_world)) = [] \<and>
   log_cmds (events (Commit_do example_ext (Commit_init (model example_world) False ''Fix'')
      example_world)) = [Broadcast_log_cmd 0 ''Commit: 1 file changed''] \<and>
   commit_result failing_commit_ext = (1, ''nothing to commit'') \<and>
   model (Commit_do failing_commit_ext (Commit_init (model example_world) False ''Fix'')
      example_world) = model example_world \<and>
   events (Commit_do failing_commit_ext (Commit_init (model example_world) False ''Fix'')
      example_world) =
     [Call_commit_with_msg ''Fix'' ''/tmp/commit-message'' False,
      Broadcast_log_cmd 1 ''Commit failed: nothing to commit'']"
  using
    Commit_do_resets_only_on_success
      [of example_ext 0 "''1 file changed''" "model example_world" False "''Fix''" example_world]
    Commit_do_resets_only_on_success
      [of failing_commit_ext 1 "''nothing to commit''" "model example_world" False "''Fix''"
          example_world]
  by (simp add: example_ext_def failing_commit_ext_def example_world_def core_encode_def)

section \<open>AmendMode\<close>

lemma undo_many_skip: "skip c \<Longrightarrow> undo_many xs c w = (c, w)"
  by (induction xs) (simp_all add: AmendMode_undo_def)

text \<open>
  C3. When an amend-entering \<^verbatim>\<open>AmendMode\<close> command runs while \<^verbatim>\<open>MERGE_HEAD\<close> exists,
  \<^verbatim>\<open>do()\<close> leaves the mode, the head, the diff text and the commit message of the model
  as they were and flags the command as skipped; the paired \<^verbatim>\<open>undo()\<close> then changes
  nothing, neither the command nor the world, however often it is called.
\<close>

theorem AmendMode_do_refused_while_merging:
  assumes "amending c" and "path_exists x (git_path x ''MERGE_HEAD'')"
    and "AmendMode_do x c w = (c1, w1)"
  shows "mode (model w1) = mode (model w) \<and> head (model w1) = head (model w) \<and>
         diff_text (model w1) = diff_text (model w) \<and>
         commitmsg (model w1) = commitmsg (model w) \<and>
         skip c1 \<and> AmendMode_undo x' c1 w1 = (c1, w1) \<and> undo_many xs c1 w1 = (c1, w1)"
proof -
  from assms have c1: "c1 = c\<lparr>skip := True\<rparr>"
    and w1: "w1 = emit (Prompt_information ''Oops! Unmerged''
                 ''You are in the middle of a merge.\<newline>You cannot amend while merging.'')
           (emit (Broadcast_amend False) w)"
    by (simp_all add: AmendMode_do_def)
  have sk: "skip c1" by (simp add: c1)
  have m: "model w1 = model w" by (simp add: w1 model_simps)
  have u: "AmendMode_undo x' c1 w1 = (c1, w1)" using sk by (simp add: AmendMode_undo_def)
  show ?thesis using sk m u undo_many_skip [OF sk] by simp
qed

text \<open>Entering amend mode in the concrete repository in the middle of a merge.\<close>

theorem AmendMode_do_refused_while_merging_witness:
  "amending (AmendMode_init example_ext [] (model example_world) True) \<and>
   path_exists merging_ext (git_path merging_ext ''MERGE_HEAD'') \<and>
   commitmsg (model (snd (AmendMode_do merging_ext
      (AmendMode_init example_ext [] (model example_world) True) example_world))) =
     ''Fix the parser'' \<and>
   skip (fst (AmendMode_do merging_ext
      (AmendMode_init example_ext [] (model example_world) True) example_world)) \<and>
   undo_many [example_ext, merging_ext]
      (fst (AmendMode_do merging_ext
         (AmendMode_init example_ext [] (model example_world) True) example_world))
      (snd (AmendMode_do merging_ext
         (AmendMode_init example_ext [] (model example_world) True) example_world)) =
     AmendMode_do merging_ext (AmendMode_init example_ext [] (model example_world) True)
       example_world"
proof -
  have a: "amending (AmendMode_init example_ext [] (model example_world) True)"
    by (simp add: AmendMode_init_old)
  have p: "path_exists merging_ext (git_path merging_ext ''MERGE_HEAD'')"
    by (simp add: merging_ext_def example_ext_def)
  have c: "commitmsg (model example_world) = ''Fix the parser''"
    by (simp add: example_world_def)
  show ?thesis
    using a p c
      AmendMode_do_refused_while_merging [OF a p,
        of example_world
           "fst (AmendMode_do merging_ext
              (AmendMode_init example_ext [] (model example_world) True) example_world)"
           "snd (AmendMode_do merging_ext
              (AmendMode_init example_ext [] (model example_world) True) example_world)"
           example_ext "[example_ext, merging_ext]"]
    by (simp del: undo_many.simps)
qed

lemma spec_walk_Cons:
  "spec_walk (c # older) live =
     (case c of
        AmendMode a \<Rightarrow> if amending a then amendmode.old_commitmsg a else spec_walk older live
      | _ \<Rightarrow> spec_walk older live)"
  by (cases c) simp_all

text \<open>
  The loop from index \<open>k\<close> on looks at the \<open>length st - k\<close> oldest entries, the most
  recent of them first.
\<close>

lemma undostack_search_walk:
  "k \<le> length st \<Longrightarrow>
   amendmode.new_commitmsg (undostack_search st (length st) [k..<length st] self) =
     spec_walk (rev (take (length st - k) st)) (amendmode.new_commitmsg self)"
proof (induction "length st - k" arbitrary: k)
  case 0
  then show ?case by simp
next
  case (Suc d)
  then have lt: "k < length st" and d: "d = length st - Suc k" by simp_all
  have tk: "take (length st - k) st = take (length st - k - 1) st @ [st ! (length st - k - 1)]"
    using lt take_Suc_conv_app_nth [of "length st - k - 1" st]
    by (simp add: Suc_diff_Suc)
  have ih: "amendmode.new_commitmsg (undostack_search st (length st) [Suc k..<length st] self) =
     spec_walk (rev (take (length st - Suc k) st)) (amendmode.new_commitmsg self)"
    using Suc.hyps(1) [OF d] lt by simp
  show ?case
    using lt ih by (simp add: upt_conv_Cons tk spec_walk_Cons split: cmdobj.splits)
qed

text \<open>
  C4. The new commit message of an \<^verbatim>\<open>AmendMode\<close> command that leaves amend mode is found
  by walking the undo stack from the most recent entry to the oldest, skipping every entry
  that is not an amend-entering \<^verbatim>\<open>AmendMode\<close> command, and taking the old commit message
  of the first amend-entering one; when the stack has none, it is the commit message of
  the model.
\<close>

theorem AmendMode_init_recovers_commitmsg:
  "amendmode.new_commitmsg (AmendMode_init x undostack m False) =
     spec_recovered_commitmsg undostack (commitmsg m)"
  using undostack_search_walk [of 0 undostack]
  by (simp add: AmendMode_init_def Let_def command.defs amendmode.defs Command_init_def
      spec_recovered_commitmsg_def)

text \<open>
  On the concrete undo stack the walk passes the leaving \<^verbatim>\<open>AmendMode\<close> and the
  \<^verbatim>\<open>SetDiffText\<close> and stops at the entering \<^verbatim>\<open>AmendMode\<close>.
\<close>

theorem AmendMode_init_recovers_commitmsg_witness:
  "amendmode.new_commitmsg (AmendMode_init example_ext example_undostack (model example_world) False) =
     ''Work in progress'' \<and>
   amendmode.new_commitmsg (AmendMode_init example_ext [] (model example_world) False) =
     ''Fix the parser''"
proof -
  have 1: "spec_recovered_commitmsg example_undostack (commitmsg (model example_world)) =
             ''Work in progress''"
    by (simp add: spec_recovered_commitmsg_def example_undostack_def AmendMode_init_old)
  have 2: "spec_recovered_commitmsg [] (commitmsg (model example_world)) = ''Fix the parser''"
    by (simp add: spec_recovered_commitmsg_def example_world_def)
  show ?thesis
    using 1 2
      AmendMode_init_recovers_commitmsg [of example_ext example_undostack "model example_world"]
      AmendMode_init_recovers_commitmsg [of example_ext "[]" "model example_world"]
    by simp
qed

section \<open>Stage, Unstage, UnstageAll and Untrack\<close>

lemma sublist_join: "p \<in> set ps \<Longrightarrow> sublist p (join sep ps)"
proof (induction sep ps rule: join.induct)
  case (1 sep)
  then show ?case by simp
next
  case (2 sep s)
  then show ?case by simp
next
  case (3 sep s t ts)
  show ?case
  proof (cases "p = s")
    case True
    then show ?thesis by (simp add: sublist_def) (metis append_Nil)
  next
    case False
    with 3 have "sublist p (join sep (t # ts))" by simp
    then obtain us vs where "join sep (t # ts) = us @ p @ vs"
      by (auto simp: sublist_def)
    then have "join sep (s # t # ts) = (s @ sep @ us) @ p @ vs" by simp
    then show ?thesis unfolding sublist_def by blast
  qed
qed

text \<open>
  C5, as the code has it. \<^verbatim>\<open>Stage(paths).do()\<close>, \<^verbatim>\<open>Unstage(paths).do()\<close> and
  \<^verbatim>\<open>Untrack(paths).do()\<close> each broadcast a \<^verbatim>\<open>log_cmd\<close> event whose text contains every
  one of the paths, and only then call \<^verbatim>\<open>stage_paths\<close>, \<^verbatim>\<open>unstage_paths\<close> and
  \<^verbatim>\<open>untrack_paths\<close>. \<^verbatim>\<open>UnstageAll.do()\<close>, which has no list of paths, calls
  \<^verbatim>\<open>unstage_all\<close> and broadcasts nothing.
\<close>

theorem path_commands_log_then_mutate:
  "events (Stage_do x (Stage_init m ps) w) =
     events w @ [Broadcast_log_cmd 0 (''Staging: '' @ join '', '' ps), Call_stage_paths ps] \<and>
   events (Unstage_do x (Unstage_init m ps) w) =
     events w @ [Broadcast_log_cmd 0 (''Unstaging: '' @ join '', '' ps), Call_unstage_paths ps] \<and>
   events (Untrack_do x (Untrack_init m ps) w) =
     events w @ [Broadcast_log_cmd 0 (''Untracking: '' @ join '', '' ps), Call_untrack_paths ps,
                 Broadcast_log_cmd (fst (untrack_result x)) (snd (untrack_result x))] \<and>
   events (UnstageAll_do x (UnstageAll_init m) w) = events w @ [Call_unstage_all] \<and>
   (\<forall>p \<in> set ps. sublist p (join '', '' ps))"
  by (simp add: Stage_do_def Stage_init_def Unstage_do_def Unstage_init_def Untrack_do_def
      Untrack_init_def UnstageAll_do_def stage_paths_def unstage_paths_def untrack_paths_def
      unstage_all_def events_simps command.defs stage.defs unstage.defs untrack.defs
      sublist_join split: prod.splits)

text \<open>Staging \<open>x.py\<close> and \<open>y.py\<close> in the concrete repository.\<close>

theorem path_commands_log_then_mutate_witness:
  "events (Stage_do example_ext (Stage_init (model example_world) [''x.py'', ''y.py''])
     example_world) =
     [Broadcast_log_cmd 0 ''Staging: x.py, y.py'', Call_stage_paths [''x.py'', ''y.py'']] \<and>
   ''y.py'' \<in> set [''x.py'', ''y.py''] \<and>
   sublist ''y.py'' (join '', '' [''x.py'', ''y.py''])"
  using path_commands_log_then_mutate
    [of example_ext "model example_world" "[''x.py'', ''y.py'']" example_world]
  by (simp add: example_world_def)

text \<open>
  \<^verbatim>\<open>UnstageAll.do()\<close> in the concrete repository: the trace has the call of
  \<^verbatim>\<open>unstage_all\<close> and no \<^verbatim>\<open>log_cmd\<close> broadcast.
\<close>

theorem UnstageAll_do_counterexample:
  "events (UnstageAll_do example_ext (UnstageAll_init (model example_world)) example_world) =
     [Call_unstage_all] \<and>
   log_cmds (events (UnstageAll_do example_ext (UnstageAll_init (model example_world))
     example_world)) = []"
  by (simp add: UnstageAll_do_def unstage_all_def events_simps example_world_def)

section \<open>RunConfigAction\<close>

text \<open>
  C6, as the code has it. When the tool needs a file and none is selected,
  \<^verbatim>\<open>RunConfigAction.do()\<close> returns after the notice, without running the shell and
  without setting \<^verbatim>\<open>FILENAME\<close>, \<^verbatim>\<open>REVISION\<close> or \<^verbatim>\<open>ARGS\<close>: it has deleted the three
  variables at its start, so all three are unset afterwards, and the rest of the
  environment and the model are as before.
\<close>

theorem RunConfigAction_do_needsfile:
  assumes "truthy (opts_get (guitool_opts x (name c)) ''needsfile'')"
    and "selection_filename x = None \<or> selection_filename x = Some []"
  shows "\<exists>w'. RunConfigAction_do x c w = Some (Return_None, w') \<and>
           events w' = events w @
             [Prompt_information ''Please select a file''
                (CHR 0x22 # py_str (opts_get (guitool_opts x (name c)) ''cmd'') @
                 CHR 0x22 # '' requires a selected file'')] \<and>
           shell_runs (events w') = shell_runs (events w) \<and>
           model w' = model w \<and>
           environ w' = (environ w)(''FILENAME'' := None, ''REVISION'' := None, ''ARGS'' := None)"
proof -
  have sr: "shell_runs (es @ [Prompt_information a b]) = shell_runs es" for es a b
    by (induction es rule: shell_runs.induct) simp_all
  show ?thesis
    using assms
    by (auto simp: RunConfigAction_do_def Let_def opts_get_def events_simps model_simps
        environ_simps sr emit_def)
qed

text \<open>
  The tool \<open>build\<close> of the concrete repository needs a file, and no file is selected.
\<close>

theorem RunConfigAction_do_needsfile_witness:
  "truthy (opts_get (guitool_opts example_ext
      (name (RunConfigAction_init (model example_world) ''build''))) ''needsfile'') \<and>
   selection_filename example_ext = None \<and>
   map_option fst (RunConfigAction_do example_ext
      (RunConfigAction_init (model example_world) ''build'') example_world) = Some Return_None \<and>
   map_option (\<lambda>r. shell_runs (events (snd r))) (RunConfigAction_do example_ext
      (RunConfigAction_init (model example_world) ''build'') example_world) = Some []"
proof -
  have n: "truthy (opts_get (guitool_opts example_ext
      (name (RunConfigAction_init (model example_world) ''build''))) ''needsfile'')"
    by (simp add: example_ext_def opts_get_def)
  have s: "selection_filename example_ext = None \<or> selection_filename example_ext = Some []"
    by (simp add: example_ext_def)
  have e: "events example_world = []"
    by (simp add: example_world_def)
  show ?thesis
    using n s e RunConfigAction_do_needsfile [OF n s, of example_world]
    by (auto simp: example_ext_def)
qed

text \<open>
  In the concrete repository \<^verbatim>\<open>FILENAME\<close> is set before \<^verbatim>\<open>do()\<close>, and unset after it
  has returned from the notice.
\<close>

theorem RunConfigAction_do_counterexample:
  "map_option fst (RunConfigAction_do example_ext
      (RunConfigAction_init (model example_world) ''build'') example_world) = Some Return_None \<and>
   environ example_world ''FILENAME'' = Some ''old.txt'' \<and>
   map_option (\<lambda>r. environ (snd r) ''FILENAME'')
     (RunConfigAction_do example_ext
        (RunConfigAction_init (model example_world) ''build'') example_world) = Some None"
  by (simp add: RunConfigAction_do_def Let_def opts_get_def example_ext_def example_world_def
      emit_def)

section \<open>ApplyPatches\<close>

lemma am_calls_append: "am_calls (es @ fs) = am_calls es @ am_calls fs"
  by (induction es rule: am_calls.induct) simp_all

lemma am_loop_calls:
  "am_calls (events (snd (am_loop x n ps dt w))) = am_calls (events w) @ map snd ps"
  by (induction ps arbitrary: dt w)
     (auto simp: events_simps am_calls_append Let_def split: prod.splits)

lemma ApplyPatches_do_calls:
  "am_calls (events (ApplyPatches_do x (ApplyPatches_init m ps) w)) =
     am_calls (events w) @ sort ps"
proof -
  have p: "patches (ApplyPatches_init m ps) = sort ps"
    by (simp add: ApplyPatches_init_def command.defs applypatches.defs)
  have "am_calls (events (ApplyPatches_do x (ApplyPatches_init m ps) w)) =
        am_calls (events (snd (am_loop x (length (sort ps)) (enumerate 0 (sort ps)) []
           (emit (Git_rev_parse ''HEAD'') w))))"
    by (simp add: ApplyPatches_do_def p Let_def events_simps update_file_status_def
        am_calls_append split: prod.splits)
  then show ?thesis
    by (simp add: am_loop_calls events_simps am_calls_append)
qed

text \<open>
  C7. \<^verbatim>\<open>ApplyPatches\<close> applies its patches in the sorted order of their paths, whatever
  the order of the list it is given: the \<^verbatim>\<open>git am\<close> calls of \<^verbatim>\<open>do()\<close> are the sorted
  permutation of the list, and two lists with the same paths give the same calls.
\<close>

theorem ApplyPatches_applies_in_sorted_order:
  "am_calls (events (ApplyPatches_do x (ApplyPatches_init m ps) w)) =
     am_calls (events w) @ sort ps \<and>
   sorted (sort ps) \<and> mset (sort ps) = mset ps \<and>
   (mset qs = mset ps \<longrightarrow>
      am_calls (events (ApplyPatches_do x (ApplyPatches_init m qs) w)) =
      am_calls (events (ApplyPatches_do x (ApplyPatches_init m ps) w)))"
proof -
  have "sort qs = sort ps" if "mset qs = mset ps"
    using that by (simp add: properties_for_sort)
  then show ?thesis by (simp add: ApplyPatches_do_calls)
qed

text \<open>The second patch of a series given before the first.\<close>

theorem ApplyPatches_applies_in_sorted_order_witness:
  "mset [''/tmp/0001.patch'', ''/tmp/0002.patch''] =
     mset [''/tmp/0002.patch'', ''/tmp/0001.patch''] \<and>
   am_calls (events (ApplyPatches_do example_ext
      (ApplyPatches_init (model example_world) [''/tmp/0002.patch'', ''/tmp/0001.patch''])
      example_world)) = [''/tmp/0001.patch'', ''/tmp/0002.patch''] \<and>
   am_calls (events (ApplyPatches_do example_ext
      (ApplyPatches_init (model example_world) [''/tmp/0001.patch'', ''/tmp/0002.patch''])
      example_world)) = [''/tmp/0001.patch'', ''/tmp/0002.patch'']"
proof -
  have s: "sort [''/tmp/0002.patch'', ''/tmp/0001.patch''] =
             [''/tmp/0001.patch'', ''/tmp/0002.patch'']"
    by simp
  have m: "mset [''/tmp/0001.patch'', ''/tmp/0002.patch''] =
             mset [''/tmp/0002.patch'', ''/tmp/0001.patch'']"
    by (simp add: add_mset_commute)
  have e: "am_calls (events example_world) = []"
    by (simp add: example_world_def)
  show ?thesis
    using s m e
      ApplyPatches_applies_in_sorted_order [of example_ext "model example_world"
        "[''/tmp/0002.patch'', ''/tmp/0001.patch'']" example_world
        "[''/tmp/0001.patch'', ''/tmp/0002.patch'']"]
    by simp
qed

section \<open>UntrackedSummary and ShowUntracked\<close>

text \<open>
  C8 asks for one rule line per untracked path. The constructor writes the rules without
  a line break between them. With the one untracked path \<open>a.txt\<close> the text has the lines
  \<open># 1 untracked file\<close>, \<open># possible .gitignore rule:\<close> and \<open>/a.txt\<close>; with
  \<open>a.txt\<close> and \<open>b.txt\<close> it has the line \<open># 2 untracked files\<close>, the plural heading,
  and the two rules on one line, \<open>/a.txt/b.txt\<close>.
\<close>

theorem UntrackedSummary_init_two_paths:
  "lines (new_diff_text (UntrackedSummary_init (m\<lparr>untracked := [''a.txt'']\<rparr>))) =
     [''# 1 untracked file'', ''# possible .gitignore rule:'', ''/a.txt''] \<and>
   new_diff_text (UntrackedSummary_init (m\<lparr>untracked := [''a.txt'', ''b.txt'']\<rparr>)) =
     ''# 2 untracked files\<newline># possible .gitignore rules:\<newline>/a.txt/b.txt'' \<and>
   lines (new_diff_text (UntrackedSummary_init (m\<lparr>untracked := [''a.txt'', ''b.txt'']\<rparr>))) =
     [''# 2 untracked files'', ''# possible .gitignore rules:'', ''/a.txt/b.txt'']"
  by (simp add: UntrackedSummary_init_def str_nat.simps digit_char_def core_encode_def
      core_decode_def Command_init_def)

text \<open>
  C9. The constructor of \<^verbatim>\<open>ShowUntracked\<close> never raises: for every list of filenames,
  the empty one too, and whatever reading the file does, it yields a command whose new
  mode is the untracked mode and whose new diff text is the content of the first file when
  the read succeeds and the empty string when anything in the \<^verbatim>\<open>try\<close> raises.
\<close>

theorem ShowUntracked_init_total:
  "\<exists>c. ShowUntracked_init x m filenames = Inr c \<and>
       new_mode c = mode_untracked \<and>
       new_diff_text c =
         (case slurp_first x filenames of Inr content \<Rightarrow> content | Inl e \<Rightarrow> [])"
  by (simp add: ShowUntracked_init_def Let_def split: sum.splits)

text \<open>
  In the concrete repository: a file that can be read, a file that cannot, and no file.
\<close>

theorem ShowUntracked_init_total_witness:
  "map_sum id new_diff_text (ShowUntracked_init example_ext (model example_world)
      [''/repo/msg.txt'']) = Inr ''Fix the parser'' \<and>
   slurp_first example_ext [''/repo/missing''] = Inl IOError \<and>
   map_sum id new_diff_text (ShowUntracked_init example_ext (model example_world)
      [''/repo/missing'']) = Inr [] \<and>
   slurp_first example_ext [] = Inl IndexError \<and>
   map_sum id new_diff_text (ShowUntracked_init example_ext (model example_world) []) = Inr []"
proof -
  have s: "slurp_first example_ext [''/repo/msg.txt''] = Inr ''Fix the parser''"
    "slurp_first example_ext [''/repo/missing''] = Inl IOError"
    "slurp_first example_ext [] = Inl IndexError"
    by (simp_all add: slurp_first_def example_ext_def)
  show ?thesis
    using s
      ShowUntracked_init_total [of example_ext "model example_world" "[''/repo/msg.txt'']"]
      ShowUntracked_init_total [of example_ext "model example_world" "[''/repo/missing'']"]
      ShowUntracked_init_total [of example_ext "model example_world" "[]"]
    by auto
qed

section \<open>SignOff\<close>

lemma SignOff_signoff_set_commitmsg:
  "SignOff_signoff x (set_commitmsg v w) = SignOff_signoff x w"
  by (simp add: SignOff_signoff_def environ_simps split: pwd_result.splits)

lemma sublist_after: "sublist s (t @ c # s)"
  unfolding sublist_def by (rule exI [of _ "t @ [c]"], rule exI [of _ "[]"]) simp

text \<open>
  C10. \<^verbatim>\<open>SignOff.do()\<close> is idempotent on the commit message: when the
  \<^verbatim>\<open>Signed-off-by\<close> line is already in the commit message, \<^verbatim>\<open>do()\<close> leaves the world
  as it is; so from any world, the commit message after two calls of \<^verbatim>\<open>do()\<close> is the
  one after the first call.
\<close>

theorem SignOff_do_idempotent:
  "(SignOff_signoff x w = Inr s \<and> sublist s (commitmsg (model w)) \<longrightarrow>
      SignOff_do x c w = (None, w)) \<and>
   commitmsg (model (snd (SignOff_do x c' (snd (SignOff_do x c w))))) =
     commitmsg (model (snd (SignOff_do x c w)))"
  by (auto simp: SignOff_do_def SignOff_signoff_set_commitmsg sublist_after model_simps
      split: sum.splits)

text \<open>
  In the concrete repository the line is \<open>Signed-off-by: ada <ada@host>\<close>: a message
  that has it stays, a message that lacks it gets it once.
\<close>

theorem SignOff_do_idempotent_witness:
  "SignOff_signoff example_ext signed_world = Inr ''\<newline>Signed-off-by: ada <ada@host>'' \<and>
   sublist ''\<newline>Signed-off-by: ada <ada@host>'' (commitmsg (model signed_world)) \<and>
   SignOff_do example_ext (SignOff_init (model signed_world)) signed_world =
     (None, signed_world) \<and>
   commitmsg (model (snd (SignOff_do example_ext (SignOff_init (model example_world))
      example_world))) = ''Fix the parser\<newline>\<newline>Signed-off-by: ada <ada@host>'' \<and>
   commitmsg (model (snd (SignOff_do example_ext (SignOff_init (model example_world))
      (snd (SignOff_do example_ext (SignOff_init (model example_world)) example_world))))) =
     ''Fix the parser\<newline>\<newline>Signed-off-by: ada <ada@host>''"
proof -
  have s: "SignOff_signoff example_ext signed_world =
             Inr ''\<newline>Signed-off-by: ada <ada@host>''"
    "SignOff_signoff example_ext example_world = Inr ''\<newline>Signed-off-by: ada <ada@host>''"
    by (simp_all add: SignOff_signoff_def example_ext_def config_get_def)
  have c: "commitmsg (model signed_world) =
             ''Fix the parser\<newline>\<newline>Signed-off-by: ada <ada@host>''"
    by (simp add: signed_world_def model_simps)
  have i: "sublist ''\<newline>Signed-off-by: ada <ada@host>'' (commitmsg (model signed_world))"
    unfolding c by (simp add: sublist_code)
  have cm: "commitmsg (model example_world) = ''Fix the parser''"
    by (simp add: example_world_def)
  have n: "\<not> sublist ''\<newline>Signed-off-by: ada <ada@host>'' ''Fix the parser''"
    by (simp add: sublist_code)
  have d: "commitmsg (model (snd (SignOff_do example_ext (SignOff_init (model example_world))
      example_world))) = ''Fix the parser\<newline>\<newline>Signed-off-by: ada <ada@host>''"
    using n by (simp add: SignOff_do_def s cm model_simps)
  show ?thesis
    using s i d
      SignOff_do_idempotent [of example_ext signed_world
        "''\<newline>Signed-off-by: ada <ada@host>''" "SignOff_init (model signed_world)"]
      SignOff_do_idempotent [of example_ext example_world _
        "SignOff_init (model example_world)" "SignOff_init (model example_world)"]
    by simp
qed

end
